theory Spec2Isabelle
  imports Complex_Main
begin

section \<open>The emission predictor page (app.py)\<close>

text \<open>
  The page is one script, run from top to bottom on every interaction. It loads a
  regression model, shows a form with five controls and, when the form was submitted,
  asks the model for a prediction and renders the result. The libraries it calls
  (the page toolkit, the table library, the model file loader, the plotting library)
  are not part of the program: each call is modelled by what it hands back to the script,
  and every call that can raise returns a sum with the exception on the left.

  Numbers returned by the model are Python floats; they are modelled by the real number
  a finite float denotes, on which the comparisons of the script are exact. The real 0
  stands for the float 0.0. The float -0.0, which the format of line 152 prints with a
  minus sign, the infinities and NaN have no counterpart in the model.
\<close>

subsection \<open>Exceptions\<close>

datatype exn =
    AttributeError string
  | IndexError string
  | Exception string

definition quoted :: "string \<Rightarrow> string" where
  "quoted s = CHR 0x27 # s @ [CHR 0x27]"

fun str_exn :: "exn \<Rightarrow> string" where
  "str_exn (AttributeError s) = s"
| "str_exn (IndexError s) = s"
| "str_exn (Exception s) = s"

subsection \<open>What the page shows\<close>

text \<open>
  The script's string literals contain characters outside ASCII (four pictographs and a
  subscript two). A text is a list of pieces, so that these characters are values of their
  own and the rest is an ordinary string.
\<close>

datatype glyph = PartyPopper | CheckMark | WarningSign | CrossMark | SubscriptTwo

datatype piece = Txt string | Glyph glyph

type_synonym rich_text = "piece list"

text \<open>
  The table given to the bar plot (\<open>comparison_data\<close>, lines 161 to 164) with the palette
  and the title of lines 171 and 174. The plot draws one bar for each row of the table, in
  order, the \<open>i\<close>-th bar in the \<open>i\<close>-th colour of the palette.
\<close>

record chart =
  vehicle_type :: "string list"
  emissions :: "real list"
  palette :: "string list"
  title :: string

definition bars :: "chart \<Rightarrow> (string \<times> real \<times> string) list" where
  "bars c = zip (vehicle_type c) (zip (emissions c) (palette c))"

text \<open>
  One constructor for each kind of call that puts something on the page. \<open>Static\<close> stands
  for a block whose content is a constant of the script (title, side bar, form, reference
  panels, style sheet), by name. \<open>ResultCard\<close> is the HTML block of lines 149 to 156 with the
  three holes of its template: the colour, the heading and the message.
\<close>

datatype element =
    Static string
  | StError string
  | Success rich_text
  | Markdown rich_text
  | Bullets "string list"
  | ResultCard string rich_text string
  | Pyplot chart
  | Warning string

subsection \<open>The model and its loading (lines 18 to 29)\<close>

datatype cell = IntCell int | StrCell string

type_synonym frame = "(string \<times> cell list) list"

text \<open>
  A loaded model is known only by its \<open>predict\<close>: it takes a table and returns an array of
  numbers, or raises. The numbers are reals, so an array holding NaN or an infinity is not
  among the values of this type.
\<close>

type_synonym predictor = "frame \<Rightarrow> exn + real list"

text \<open>
  \<open>load_model\<close> calls \<open>urlretrieve\<close> on the file name (the \<open>url\<close> bound on line 22 is not
  used), then \<open>joblib.load\<close> on the file name that comes back. Any exception of either call
  is caught: the error is put on the page and the function returns \<open>None\<close>. The result is
  the pair of what was put on the page and the value returned. The toolkit's cache replays
  both on later runs of the script, so a run with a cached result is the same run.
\<close>

definition load_model ::
  "(string \<Rightarrow> exn + string) \<Rightarrow> (string \<Rightarrow> exn + predictor) \<Rightarrow> element list \<times> predictor option"
where
  "load_model urlretrieve joblib_load =
     (case urlretrieve ''co2_emission_predictor_rf.pkl'' of
        Inl e \<Rightarrow> ([StError (''Error loading model: '' @ str_exn e)], None)
      | Inr filename \<Rightarrow>
          (case joblib_load filename of
             Inl e \<Rightarrow> ([StError (''Error loading model: '' @ str_exn e)], None)
           | Inr m \<Rightarrow> ([], Some m)))"

subsection \<open>The form (lines 67 to 112)\<close>

record request =
  model_year :: int
  fuel_type :: string
  kms_driven :: int
  engine_cc :: int
  transmission :: string

text \<open>
  A control is modelled by the values it can hand to the script, given the arguments the
  script passes: a slider and a number input return a number between their bounds, a select
  box and a radio group return one of their options.
\<close>

definition slider :: "int \<Rightarrow> int \<Rightarrow> int \<Rightarrow> bool" where
  "slider min_value max_value v \<longleftrightarrow> min_value \<le> v \<and> v \<le> max_value"

definition number_input :: "int \<Rightarrow> int \<Rightarrow> int \<Rightarrow> bool" where
  "number_input min_value max_value v \<longleftrightarrow> min_value \<le> v \<and> v \<le> max_value"

definition selectbox :: "'a list \<Rightarrow> 'a \<Rightarrow> bool" where
  "selectbox options v \<longleftrightarrow> v \<in> set options"

definition radio :: "'a list \<Rightarrow> 'a \<Rightarrow> bool" where
  "radio options v \<longleftrightarrow> v \<in> set options"

definition fuel_options :: "string list" where
  "fuel_options = [''Petrol'', ''Diesel'', ''Hybrid'', ''Electric'']"

definition engine_options :: "int list" where
  "engine_options =
     [1000, 1200, 1500, 1800, 2000, 2200, 2500, 2800, 3000, 3200, 3500, 3800, 4000, 4500, 5000]"

definition transmission_options :: "string list" where
  "transmission_options = [''Manual'', ''Automatic'']"

definition prediction_form :: "request \<Rightarrow> bool" where
  "prediction_form r \<longleftrightarrow>
     slider 1985 2025 (model_year r) \<and>
     selectbox fuel_options (fuel_type r) \<and>
     number_input 0 500000 (kms_driven r) \<and>
     selectbox engine_options (engine_cc r) \<and>
     radio transmission_options (transmission r)"

text \<open>The values the controls hold before the user touches them.\<close>

definition initial_request :: request where
  "initial_request =
     \<lparr>model_year = 2018, fuel_type = fuel_options ! 0, kms_driven = 50000,
      engine_cc = engine_options ! 4, transmission = transmission_options ! 0\<rparr>"

subsection \<open>The result (lines 117 to 185)\<close>

definition input_data :: "request \<Rightarrow> frame" where
  "input_data r =
     [(''Model_Year'', [IntCell (model_year r)]),
      (''Fuel_Type'', [StrCell (fuel_type r)]),
      (''KMs_Driven'', [IntCell (kms_driven r)]),
      (''Engine_CC'', [IntCell (engine_cc r)]),
      (''Transmission_Type'', [StrCell (transmission r)])]"

text \<open>Lines 136 to 147: colour, icon and message of a prediction.\<close>

definition emission_color :: "real \<Rightarrow> string" where
  "emission_color prediction =
     (if prediction < 100 then ''green'' else if prediction < 180 then ''orange'' else ''red'')"

definition emission_icon :: "real \<Rightarrow> glyph" where
  "emission_icon prediction =
     (if prediction < 100 then CheckMark else if prediction < 180 then WarningSign else CrossMark)"

definition emission_message :: "real \<Rightarrow> string" where
  "emission_message prediction =
     (if prediction < 100 then ''Low Emissions''
      else if prediction < 180 then ''Moderate Emissions'' else ''High Emissions'')"

text \<open>
  The format \<open>.1f\<close> of line 152: the decimal numeral with one digit after the point that is
  nearest to the number, the even one of two that are equally near, with a minus sign for a
  negative number. On the real 0 it prints "0.0", as Python does on the float 0.0; Python
  prints "-0.0" on the float -0.0, which the model does not have.
\<close>

definition round_half_even :: "real \<Rightarrow> int" where
  "round_half_even x =
     (let n = \<lfloor>x\<rfloor>; d = x - of_int n
      in if d < 1 / 2 then n else if 1 / 2 < d then n + 1 else if even n then n else n + 1)"

definition digit_char :: "nat \<Rightarrow> char" where
  "digit_char d = ''0123456789'' ! d"

fun digits :: "nat \<Rightarrow> string" where
  "digits n = (if n < 10 then [digit_char n] else digits (n div 10) @ [digit_char (n mod 10)])"

declare digits.simps [simp del]

definition tenths :: "real \<Rightarrow> nat" where
  "tenths x = nat (round_half_even (\<bar>x\<bar> * 10))"

definition format_1f :: "real \<Rightarrow> string" where
  "format_1f x =
     (if x < 0 then ''-'' else '''') @ digits (tenths x div 10) @ ''.'' @ digits (tenths x mod 10)"

text \<open>The number a text printed by \<open>format_1f\<close> denotes.\<close>

definition shown_value :: "real \<Rightarrow> real" where
  "shown_value x = (if x < 0 then - 1 else 1) * real (tenths x) / 10"

definition tips_block :: "element list" where
  "tips_block =
     [Warning ''**Tips to reduce emissions:**'',
      Bullets [''Consider more frequent maintenance'',
               ''Check tire pressure regularly'',
               ''Reduce unnecessary weight in vehicle'',
               ''Consider a more efficient vehicle for your next purchase'']]"

definition comparison_chart :: "real \<Rightarrow> chart" where
  "comparison_chart prediction =
     \<lparr>vehicle_type = [''Small Petrol Car'', ''Average Diesel Car'', ''SUV'', ''Your Vehicle''],
      emissions = [120, 150, 200, prediction],
      palette = [''#1f77b4'', ''#1f77b4'', ''#1f77b4'', emission_color prediction],
      title = ''Emission Comparison''\<rparr>"

text \<open>Lines 131 to 185: what is put on the page once the prediction is there.\<close>

definition display_result :: "string \<Rightarrow> real \<Rightarrow> element list" where
  "display_result fuel prediction =
     (if fuel = ''Electric'' then
        [Success [Txt ''## '', Glyph PartyPopper, Txt '' 0 g/km''],
         Markdown [Txt ''Electric vehicles produce zero direct CO'', Glyph SubscriptTwo,
                   Txt '' emissions!'']]
      else
        [ResultCard (emission_color prediction)
           [Glyph (emission_icon prediction), Txt ('' '' @ format_1f prediction @ '' g/km'')]
           (emission_message prediction),
         Markdown [Txt ''### How does this compare?''],
         Pyplot (comparison_chart prediction)]
        @ (if prediction > 150 then tips_block else []))"

subsection \<open>One run of the script\<close>

text \<open>
  A run ends normally or with an exception nobody caught; in both cases it has put some
  elements on the page and has called the model some number of times.
\<close>

record run =
  rendered :: "element list"
  predict_calls :: "frame list"
  raised :: "exn option"

definition page_top :: "element list" where
  "page_top =
     [Static ''title'', Static ''introduction'', Static ''sidebar'',
      Static ''Vehicle Specifications'', Static ''prediction_form'',
      Static ''Prediction Results'']"

definition page_bottom :: "element list" where
  "page_bottom =
     [Static ''divider'', Static ''Understanding Your Results'', Static ''reference panels'',
      Static ''style'']"

text \<open>
  Lines 117 to 128: the table is built, then \<open>model.predict(input_data)[0]\<close> is evaluated.
  With no model the attribute lookup raises; the call itself may raise; taking the first
  element of an empty array raises.
\<close>

definition make_prediction :: "predictor option \<Rightarrow> frame \<Rightarrow> frame list \<times> (exn + real)" where
  "make_prediction model table =
     (case model of
        None \<Rightarrow>
          ([], Inl (AttributeError
                 (quoted ''NoneType'' @ '' object has no attribute '' @ quoted ''predict'')))
      | Some m \<Rightarrow>
          (case m table of
             Inl e \<Rightarrow> ([table], Inl e)
           | Inr [] \<Rightarrow>
               ([table], Inl (IndexError ''index 0 is out of bounds for axis 0 with size 0''))
           | Inr (prediction # _) \<Rightarrow> ([table], Inr prediction)))"

definition app ::
  "(string \<Rightarrow> exn + string) \<Rightarrow> (string \<Rightarrow> exn + predictor) \<Rightarrow> request \<Rightarrow> bool \<Rightarrow> run"
where
  "app urlretrieve joblib_load r submitted =
     (case load_model urlretrieve joblib_load of (shown, model) \<Rightarrow>
        if submitted then
          (case make_prediction model (input_data r) of
             (calls, Inl e) \<Rightarrow>
               \<lparr>rendered = shown @ page_top, predict_calls = calls, raised = Some e\<rparr>
           | (calls, Inr prediction) \<Rightarrow>
               \<lparr>rendered = shown @ page_top @ display_result (fuel_type r) prediction @ page_bottom,
                predict_calls = calls, raised = None\<rparr>)
        else
          \<lparr>rendered = shown @ page_top @ page_bottom, predict_calls = [], raised = None\<rparr>)"

subsection \<open>Concrete surroundings\<close>

text \<open>
  Stand-ins for the outside world, used to run the script on concrete inputs.

  \<open>no_scheme\<close> is the retrieval the script has: the library's \<open>urlretrieve\<close> raises "unknown
  url type" on a name without a scheme, before any transfer, and line 23 passes such a
  name. With it no model is ever loaded. \<open>local_file\<close> is a retrieval that hands the file
  name back, as a retrieval of a reachable address does; the script as it stands never
  gets it, and it serves only to give the properties that speak of a loaded model an
  instance. The others are a loader that returns a given model, a model that always
  answers the same number, one that does not know the fuel type \<open>Electric\<close>, and two
  requests that differ from the form's initial values.
\<close>

definition local_file :: "string \<Rightarrow> exn + string" where
  "local_file name = Inr name"

definition no_scheme :: "string \<Rightarrow> exn + string" where
  "no_scheme name = Inl (Exception (''unknown url type: '' @ quoted name))"

definition loads :: "predictor \<Rightarrow> string \<Rightarrow> exn + predictor" where
  "loads m filename = Inr m"

definition constant_model :: "real \<Rightarrow> predictor" where
  "constant_model p table = Inr [p]"

definition combustion_model :: predictor where
  "combustion_model table =
     (if (''Fuel_Type'', [StrCell ''Electric'']) \<in> set table
      then Inl (Exception ''Found unknown categories in column Fuel_Type'')
      else Inr [1423 / 10])"

definition electric_request :: request where
  "electric_request = initial_request\<lparr>fuel_type := fuel_options ! 3\<rparr>"

definition older_request :: request where
  "older_request = initial_request\<lparr>model_year := 1990, kms_driven := 250000\<rparr>"

text \<open>Reading back what \<open>format_1f\<close> printed: the number a decimal numeral denotes.\<close>

definition nat_of_digits :: "string \<Rightarrow> nat" where
  "nat_of_digits s = foldl (\<lambda>a c. 10 * a + (of_char c - 48)) 0 s"

definition read_1f :: "string \<Rightarrow> real" where
  "read_1f s =
     (let neg = (s \<noteq> [] \<and> hd s = CHR ''-'');
          body = (if neg then tl s else s);
          whole = takeWhile (\<lambda>c. c \<noteq> CHR ''.'') body;
          frac = drop 1 (dropWhile (\<lambda>c. c \<noteq> CHR ''.'') body)
      in (if neg then - 1 else 1) * (real (nat_of_digits whole) + real (nat_of_digits frac) / 10))"

section \<open>Properties\<close>

subsection \<open>The run of a submitted form\<close>

lemma load_model_Some:
  "snd (load_model u j) = Some m \<Longrightarrow> load_model u j = ([], Some m)"
  by (auto simp: load_model_def split: sum.splits)

lemma app_submitted_predicted:
  assumes "snd (load_model u j) = Some m" and "m (input_data r) = Inr (p # ps)"
  shows "app u j r True =
    \<lparr>rendered = page_top @ display_result (fuel_type r) p @ page_bottom,
     predict_calls = [input_data r], raised = None\<rparr>"
  using assms by (simp add: app_def load_model_Some make_prediction_def)

subsection \<open>Rounding and printing\<close>

lemma round_half_even_near: "\<bar>real_of_int (round_half_even x) - x\<bar> \<le> 1 / 2"
  unfolding round_half_even_def Let_def by (auto simp: abs_if) linarith+

lemma round_half_even_nonneg: "0 \<le> x \<Longrightarrow> 0 \<le> round_half_even x"
  unfolding round_half_even_def Let_def by (auto simp: abs_if)

lemma shown_value_near: "\<bar>shown_value x - x\<bar> \<le> 1 / 20"
proof -
  have n: "0 \<le> round_half_even (\<bar>x\<bar> * 10)" by (rule round_half_even_nonneg) simp
  have "\<bar>real_of_int (round_half_even (\<bar>x\<bar> * 10)) - \<bar>x\<bar> * 10\<bar> \<le> 1 / 2"
    by (rule round_half_even_near)
  with n show ?thesis
    unfolding shown_value_def tenths_def by (auto simp: abs_if split: if_splits)
qed

lemma below_ten: "n < 10 \<Longrightarrow> n \<in> {0, 1, 2, 3, 4, 5, 6, 7, 8, 9::nat}"
  by auto

lemma digit_char_value: "n < 10 \<Longrightarrow> of_char (digit_char n) - 48 = n"
  by (drule below_ten) (auto simp: digit_char_def)

lemma digit_char_plain: "n < 10 \<Longrightarrow> digit_char n \<noteq> CHR ''.'' \<and> digit_char n \<noteq> CHR ''-''"
  by (drule below_ten) (auto simp: digit_char_def)

lemma nat_of_digits_snoc: "nat_of_digits (s @ [c]) = 10 * nat_of_digits s + (of_char c - 48)"
  by (simp add: nat_of_digits_def)

lemma nat_of_digits_digits: "nat_of_digits (digits n) = n"
proof (induction n rule: digits.induct)
  case (1 n)
  show ?case
  proof (cases "n < 10")
    case True
    then show ?thesis
      by (simp add: digits.simps [of n] nat_of_digits_def digit_char_value)
  next
    case False
    with 1 show ?thesis
      by (simp add: digits.simps [of n] nat_of_digits_snoc digit_char_value)
  qed
qed

lemma digits_plain: "c \<in> set (digits n) \<Longrightarrow> c \<noteq> CHR ''.'' \<and> c \<noteq> CHR ''-''"
proof (induction n rule: digits.induct)
  case (1 n)
  show ?case
  proof (cases "n < 10")
    case True
    with 1(2) show ?thesis
      by (auto simp: digits.simps [of n] digit_char_plain)
  next
    case False
    with 1 show ?thesis
      by (auto simp: digits.simps [of n] digit_char_plain)
  qed
qed

lemma digits_nonempty: "digits n \<noteq> []"
  by (subst digits.simps) simp

lemma hd_digits: "hd (digits n) \<noteq> CHR ''-''"
  using digits_plain [of "hd (digits n)" n] digits_nonempty [of n] by simp

lemma read_unsigned:
  "takeWhile (\<lambda>c. c \<noteq> CHR ''.'') (digits a @ ''.'' @ digits b) = digits a"
  "drop 1 (dropWhile (\<lambda>c. c \<noteq> CHR ''.'') (digits a @ ''.'' @ digits b)) = digits b"
  using digits_plain [of _ a] by simp_all

lemma whole_and_tenth: "real (n div 10) + real (n mod 10) / 10 = real n / 10"
proof -
  have "real n = real (10 * (n div 10) + n mod 10)" by simp
  also have "\<dots> = 10 * real (n div 10) + real (n mod 10)" by (simp only: of_nat_add of_nat_mult of_nat_numeral)
  finally show ?thesis by simp
qed

lemma read_1f_negative:
  "read_1f (''-'' @ digits a @ ''.'' @ digits b) = - (real a + real b / 10)"
  using read_unsigned [of a b] by (simp add: read_1f_def nat_of_digits_digits)

lemma read_1f_positive:
  "read_1f ([] @ digits a @ ''.'' @ digits b) = real a + real b / 10"
  using read_unsigned [of a b] hd_digits [of a] digits_nonempty [of a]
  by (simp add: read_1f_def nat_of_digits_digits)

lemma read_1f_format_1f: "read_1f (format_1f x) = shown_value x"
proof (cases "x < 0")
  case True
  then have "read_1f (format_1f x) = - (real (tenths x div 10) + real (tenths x mod 10) / 10)"
    unfolding format_1f_def by (simp only: if_True read_1f_negative)
  also have "\<dots> = - (real (tenths x) / 10)"
    by (simp only: whole_and_tenth)
  finally show ?thesis using True by (simp add: shown_value_def)
next
  case False
  then have "read_1f (format_1f x) = real (tenths x div 10) + real (tenths x mod 10) / 10"
    unfolding format_1f_def by (simp only: if_False read_1f_positive)
  also have "\<dots> = real (tenths x) / 10"
    by (simp only: whole_and_tenth)
  finally show ?thesis using False by (simp add: shown_value_def)
qed

subsection \<open>What a run can put on the page\<close>

lemma page_top_static: "e \<in> set page_top \<Longrightarrow> \<exists>n. e = Static n"
  by (auto simp: page_top_def)

lemma page_bottom_static: "e \<in> set page_bottom \<Longrightarrow> \<exists>n. e = Static n"
  by (auto simp: page_bottom_def)

lemma load_model_shown: "e \<in> set (fst (load_model u j)) \<Longrightarrow> \<exists>t. e = StError t"
  by (auto simp: load_model_def split: sum.splits)

lemma rendered_cases:
  "e \<in> set (rendered (app u j r s)) \<Longrightarrow>
     (\<exists>n. e = Static n) \<or> (\<exists>t. e = StError t) \<or>
     (s \<and> (\<exists>m p ps. snd (load_model u j) = Some m \<and> m (input_data r) = Inr (p # ps) \<and>
        e \<in> set (display_result (fuel_type r) p)))"
proof (cases "load_model u j")
  case (Pair shown model)
  have sh: "\<And>x. x \<in> set shown \<Longrightarrow> \<exists>t. x = StError t"
    using load_model_shown [of _ u j] Pair by simp
  assume "e \<in> set (rendered (app u j r s))"
  then show ?thesis
    using Pair sh page_top_static [of e] page_bottom_static [of e]
    by (auto simp: app_def make_prediction_def split: if_splits option.splits sum.splits list.splits)
qed

lemma display_result_plot:
  assumes "Pyplot c \<in> set (display_result fuel p)"
  shows "fuel \<noteq> ''Electric'' \<and> c = comparison_chart p"
  using assms by (auto simp: display_result_def tips_block_def split: if_splits)

lemma tips_only_from_display:
  assumes "e \<in> set tips_block" and "e \<in> set (rendered (app u j r s))"
  shows "s \<and> fuel_type r \<noteq> ''Electric'' \<and>
     (\<exists>m p ps. snd (load_model u j) = Some m \<and> m (input_data r) = Inr (p # ps) \<and> 150 < p)"
proof -
  from assms(1) have n: "(\<forall>n. e \<noteq> Static n) \<and> (\<forall>t. e \<noteq> StError t)"
    by (auto simp: tips_block_def)
  with rendered_cases [OF assms(2)] obtain m p ps where
    s: s and l: "snd (load_model u j) = Some m" and p: "m (input_data r) = Inr (p # ps)"
    and e: "e \<in> set (display_result (fuel_type r) p)"
    by blast
  from e assms(1) have "fuel_type r \<noteq> ''Electric'' \<and> 150 < p"
    by (auto simp: display_result_def tips_block_def split: if_splits)
  with s l p show ?thesis by blast
qed

lemma predict_calls_app:
  "predict_calls (app u j r s) =
     (if s \<and> snd (load_model u j) \<noteq> None then [input_data r] else [])"
  by (cases "load_model u j")
    (auto simp: app_def make_prediction_def split: option.splits sum.splits list.splits)

subsection \<open>The run with the retrieval of line 23\<close>

lemma app_no_scheme_submitted:
  "app no_scheme j r True =
     \<lparr>rendered =
        StError (''Error loading model: unknown url type: ''
                  @ quoted ''co2_emission_predictor_rf.pkl'') # page_top,
      predict_calls = [],
      raised = Some (AttributeError
        (quoted ''NoneType'' @ '' object has no attribute '' @ quoted ''predict''))\<rparr>"
  by (simp add: app_def load_model_def no_scheme_def make_prediction_def)

lemma display_result_electric:
  "display_result ''Electric'' p =
     [Success [Txt ''## '', Glyph PartyPopper, Txt '' 0 g/km''],
      Markdown [Txt ''Electric vehicles produce zero direct CO'', Glyph SubscriptTwo,
                Txt '' emissions!'']]"
  by (simp add: display_result_def)

lemma fuel_type_electric_request: "fuel_type electric_request = ''Electric''"
  by (simp add: electric_request_def fuel_options_def)

section \<open>The claims\<close>

text \<open>
  C1: for every request with fuel type Electric the displayed estimate is exactly 0 and the
  model's \<open>predict\<close> is never called. The branch of lines 131 to 133 does put "0 g/km" on the
  page, whatever the prediction; the run below is the one the script has with the retrieval
  of line 23, which raises on a name without a scheme. The model is \<open>None\<close>, \<open>predict\<close> is
  not called, and line 128 raises an \<open>AttributeError\<close> nobody catches before the branch is
  reached: no estimate is displayed. The fault is the absent check for \<open>None\<close>, the one of C2.
\<close>

theorem electric_estimate_not_shown:
  "fuel_type electric_request = ''Electric'' \<and>
   snd (load_model no_scheme j) = None \<and>
   predict_calls (app no_scheme j electric_request True) = [] \<and>
   (\<forall>t. Success t \<notin> set (rendered (app no_scheme j electric_request True))) \<and>
   raised (app no_scheme j electric_request True) =
     Some (AttributeError
       (quoted ''NoneType'' @ '' object has no attribute '' @ quoted ''predict'')) \<and>
   hd (display_result (fuel_type electric_request) p) =
     Success [Txt ''## '', Glyph PartyPopper, Txt '' 0 g/km'']"
proof -
  have l: "snd (load_model no_scheme j) = None"
    by (simp add: load_model_def no_scheme_def)
  have s: "\<forall>t. Success t \<notin> set (rendered (app no_scheme j electric_request True))"
    by (auto simp: app_no_scheme_submitted dest: page_top_static)
  from l s show ?thesis
    by (simp add: fuel_type_electric_request app_no_scheme_submitted display_result_electric)
qed

text \<open>
  C2: when fetching the model fails, \<open>load_model\<close> catches the exception, puts an error
  message on the page and returns \<open>None\<close>; the claim then asks that a submission report a
  failure without an unhandled exception. Here the run is evaluated with a retrieval that
  fails: the error message is shown and the model is \<open>None\<close>, but the submission ends with
  an \<open>AttributeError\<close> nobody catches, raised by \<open>model.predict\<close> on line 128, and nothing is
  put on the page after the heading of the results column.
\<close>

theorem submit_after_failed_load:
  "load_model no_scheme (loads (constant_model 50)) =
     ([StError (''Error loading model: unknown url type: ''
                 @ quoted ''co2_emission_predictor_rf.pkl'')], None) \<and>
   app no_scheme (loads (constant_model 50)) initial_request True =
     \<lparr>rendered =
        StError (''Error loading model: unknown url type: ''
                  @ quoted ''co2_emission_predictor_rf.pkl'') # page_top,
      predict_calls = [],
      raised = Some (AttributeError
        (quoted ''NoneType'' @ '' object has no attribute '' @ quoted ''predict''))\<rparr>"
  by (simp add: app_def load_model_def no_scheme_def make_prediction_def)

text \<open>
  C3: the display tier of a numeric estimate follows fixed half-open thresholds: below 100
  it is "Low Emissions", green, with the check mark; from 100 and below 180 it is "Moderate
  Emissions", orange, with the warning sign; from 180 on it is "High Emissions", red, with
  the cross mark; these are the colour, icon and message of the result card; in particular
  99.9 is Low, 100.0 and 179.9 are Moderate and 180.0 is High.
\<close>

theorem tier_thresholds:
  "(p < 100 \<longrightarrow>
      emission_message p = ''Low Emissions'' \<and> emission_color p = ''green'' \<and>
      emission_icon p = CheckMark) \<and>
   (100 \<le> p \<and> p < 180 \<longrightarrow>
      emission_message p = ''Moderate Emissions'' \<and> emission_color p = ''orange'' \<and>
      emission_icon p = WarningSign) \<and>
   (180 \<le> p \<longrightarrow>
      emission_message p = ''High Emissions'' \<and> emission_color p = ''red'' \<and>
      emission_icon p = CrossMark) \<and>
   (fuel \<noteq> ''Electric'' \<longrightarrow>
      hd (display_result fuel p) =
        ResultCard (emission_color p)
          [Glyph (emission_icon p), Txt ('' '' @ format_1f p @ '' g/km'')]
          (emission_message p)) \<and>
   emission_message (999 / 10) = ''Low Emissions'' \<and>
   emission_message 100 = ''Moderate Emissions'' \<and>
   emission_message (1799 / 10) = ''Moderate Emissions'' \<and>
   emission_message 180 = ''High Emissions''"
  by (simp add: emission_message_def emission_color_def emission_icon_def display_result_def)

theorem tier_thresholds_witness:
  "emission_message 50 = ''Low Emissions'' \<and> emission_color 50 = ''green'' \<and>
   emission_icon 50 = CheckMark \<and>
   emission_message (1423 / 10) = ''Moderate Emissions'' \<and>
   emission_color (1423 / 10) = ''orange'' \<and> emission_icon (1423 / 10) = WarningSign \<and>
   emission_message (2107 / 10) = ''High Emissions'' \<and>
   emission_color (2107 / 10) = ''red'' \<and> emission_icon (2107 / 10) = CrossMark \<and>
   hd (display_result ''Petrol'' (1423 / 10)) =
     ResultCard ''orange'' [Glyph WarningSign, Txt '' 142.3 g/km''] ''Moderate Emissions''"
proof -
  have fmt: "format_1f (1423 / 10) = ''142.3''"
    by (simp add: format_1f_def tenths_def round_half_even_def digits.simps digit_char_def)
  show ?thesis
    using tier_thresholds [of 50 "''Petrol''"] tier_thresholds [of "1423 / 10" "''Petrol''"]
      tier_thresholds [of "2107 / 10" "''Petrol''"] fmt
    by simp
qed

text \<open>
  C4: for every submitted request whose fuel type is not Electric, the number displayed is
  the model's raw output, changed only by rounding to one decimal place. With \<open>p\<close> the first
  number the loaded model returned for the request: the one result card on the page prints
  \<open>p\<close> with the format \<open>.1f\<close>, the printed numeral denotes a multiple of one tenth no further
  than one twentieth from \<open>p\<close>, the "0 g/km" banner is absent, and the bar of the chart for the
  user's vehicle has \<open>p\<close> itself as height.
\<close>

theorem non_electric_shows_prediction:
  assumes "fuel_type r \<noteq> ''Electric''"
    and "snd (load_model u j) = Some m"
    and "m (input_data r) = Inr (p # ps)"
  shows "ResultCard (emission_color p)
           [Glyph (emission_icon p), Txt ('' '' @ format_1f p @ '' g/km'')]
           (emission_message p) \<in> set (rendered (app u j r True)) \<and>
         (\<forall>c h msg. ResultCard c h msg \<in> set (rendered (app u j r True)) \<longrightarrow>
            h = [Glyph (emission_icon p), Txt ('' '' @ format_1f p @ '' g/km'')]) \<and>
         (\<forall>t. Success t \<notin> set (rendered (app u j r True))) \<and>
         read_1f (format_1f p) = shown_value p \<and>
         \<bar>shown_value p - p\<bar> \<le> 1 / 20 \<and>
         (\<exists>k::int. shown_value p = real_of_int k / 10) \<and>
         Pyplot (comparison_chart p) \<in> set (rendered (app u j r True)) \<and>
         last (bars (comparison_chart p)) = (''Your Vehicle'', p, emission_color p)"
proof -
  have k: "\<exists>k::int. shown_value p = real_of_int k / 10"
  proof (cases "p < 0")
    case True
    then have "shown_value p = real_of_int (- int (tenths p)) / 10"
      by (simp add: shown_value_def)
    then show ?thesis ..
  next
    case False
    then have "shown_value p = real_of_int (int (tenths p)) / 10"
      by (simp add: shown_value_def)
    then show ?thesis ..
  qed
  have r: "rendered (app u j r True) = page_top @ display_result (fuel_type r) p @ page_bottom"
    using assms by (simp add: app_submitted_predicted)
  have b: "last (bars (comparison_chart p)) = (''Your Vehicle'', p, emission_color p)"
    by (simp add: bars_def comparison_chart_def)
  have d: "display_result (fuel_type r) p =
      [ResultCard (emission_color p)
           [Glyph (emission_icon p), Txt ('' '' @ format_1f p @ '' g/km'')]
           (emission_message p),
       Markdown [Txt ''### How does this compare?''],
       Pyplot (comparison_chart p)] @ (if p > 150 then tips_block else [])"
    using assms(1) by (simp add: display_result_def)
  have c: "\<forall>c h msg. ResultCard c h msg \<in> set (rendered (app u j r True)) \<longrightarrow>
            h = [Glyph (emission_icon p), Txt ('' '' @ format_1f p @ '' g/km'')]"
    unfolding r d by (auto simp: tips_block_def dest: page_top_static page_bottom_static)
  have s: "\<forall>t. Success t \<notin> set (rendered (app u j r True))"
    unfolding r d by (auto simp: tips_block_def dest: page_top_static page_bottom_static)
  have card: "ResultCard (emission_color p)
           [Glyph (emission_icon p), Txt ('' '' @ format_1f p @ '' g/km'')]
           (emission_message p) \<in> set (rendered (app u j r True))"
    unfolding r d by simp
  have plot: "Pyplot (comparison_chart p) \<in> set (rendered (app u j r True))"
    unfolding r d by simp
  note rd = read_1f_format_1f [of p] and near = shown_value_near [of p]
  from card c s rd near k plot b show ?thesis
    by (intro conjI)
qed

theorem non_electric_shows_prediction_witness:
  "ResultCard ''orange'' [Glyph WarningSign, Txt '' 142.3 g/km''] ''Moderate Emissions''
     \<in> set (rendered (app local_file (loads (constant_model (1423 / 10))) initial_request True)) \<and>
   read_1f ''142.3'' = 1423 / 10 \<and>
   last (bars (comparison_chart (1423 / 10))) = (''Your Vehicle'', 1423 / 10, ''orange'')"
proof -
  have f: "fuel_type initial_request \<noteq> ''Electric''"
    by (simp add: initial_request_def fuel_options_def)
  have l: "snd (load_model local_file (loads (constant_model (1423 / 10)))) =
      Some (constant_model (1423 / 10))"
    by (simp add: load_model_def local_file_def loads_def)
  have p: "constant_model (1423 / 10) (input_data initial_request) = Inr [1423 / 10]"
    by (simp add: constant_model_def)
  have fmt: "format_1f (1423 / 10) = ''142.3''"
    by (simp add: format_1f_def tenths_def round_half_even_def digits.simps digit_char_def)
  have sv: "shown_value (1423 / 10) = 1423 / 10"
    by (simp add: shown_value_def tenths_def round_half_even_def)
  have t: "emission_color (1423 / 10) = ''orange''" "emission_icon (1423 / 10) = WarningSign"
    "emission_message (1423 / 10) = ''Moderate Emissions''"
    by (simp_all add: emission_color_def emission_icon_def emission_message_def)
  from non_electric_shows_prediction [OF f l p] show ?thesis
    by (simp add: fmt sv t)
qed

text \<open>
  C5: the tips block is on the page if and only if the estimate is strictly greater than
  150 and the fuel type is not Electric. The estimate is the number the model returned for
  the submitted form; a run with no estimate (nothing submitted, no model, a failed call)
  shows no tips. Both readings of "rendered" are covered: the whole block, or any part of it.
\<close>

theorem tips_iff:
  "(set tips_block \<subseteq> set (rendered (app u j r s))) =
     (s \<and> fuel_type r \<noteq> ''Electric'' \<and>
      (\<exists>m p ps. snd (load_model u j) = Some m \<and> m (input_data r) = Inr (p # ps) \<and> 150 < p)) \<and>
   (set tips_block \<inter> set (rendered (app u j r s)) \<noteq> {}) =
     (s \<and> fuel_type r \<noteq> ''Electric'' \<and>
      (\<exists>m p ps. snd (load_model u j) = Some m \<and> m (input_data r) = Inr (p # ps) \<and> 150 < p))"
proof -
  let ?C = "s \<and> fuel_type r \<noteq> ''Electric'' \<and>
      (\<exists>m p ps. snd (load_model u j) = Some m \<and> m (input_data r) = Inr (p # ps) \<and> 150 < p)"
  have w: "Warning ''**Tips to reduce emissions:**'' \<in> set tips_block"
    by (simp add: tips_block_def)
  have a: "set tips_block \<subseteq> set (rendered (app u j r s))" if ?C
  proof -
    from that obtain m p ps where s and "fuel_type r \<noteq> ''Electric''"
      and "snd (load_model u j) = Some m" and "m (input_data r) = Inr (p # ps)" and "150 < p"
      by blast
    then show ?thesis
      by (auto simp: app_submitted_predicted display_result_def)
  qed
  have b: ?C if "set tips_block \<inter> set (rendered (app u j r s)) \<noteq> {}"
    using that tips_only_from_display [of _ u j r s] by blast
  have c: "set tips_block \<inter> set (rendered (app u j r s)) \<noteq> {}"
    if "set tips_block \<subseteq> set (rendered (app u j r s))"
    using that w by blast
  from a b c show ?thesis by blast
qed

theorem tips_iff_witness:
  "set tips_block
     \<subseteq> set (rendered (app local_file (loads (constant_model (2107 / 10))) initial_request True)) \<and>
   set tips_block
     \<inter> set (rendered (app local_file (loads (constant_model 150)) initial_request True)) = {} \<and>
   set tips_block
     \<inter> set (rendered (app local_file (loads (constant_model (2107 / 10))) electric_request True)) = {}"
proof -
  have l: "\<And>p. snd (load_model local_file (loads (constant_model p))) = Some (constant_model p)"
    by (simp add: load_model_def local_file_def loads_def)
  have f: "fuel_type initial_request \<noteq> ''Electric''" "fuel_type electric_request = ''Electric''"
    by (simp_all add: initial_request_def electric_request_def fuel_options_def)
  have e: "\<exists>m p ps. snd (load_model local_file (loads (constant_model (2107 / 10)))) = Some m \<and>
      m (input_data initial_request) = Inr (p # ps) \<and> 150 < p"
    by (rule exI [of _ "constant_model (2107 / 10)"], rule exI [of _ "2107 / 10"],
        rule exI [of _ "[]"]) (simp add: l constant_model_def)
  have a: "set tips_block
     \<subseteq> set (rendered (app local_file (loads (constant_model (2107 / 10))) initial_request True))"
    using tips_iff [of local_file "loads (constant_model (2107 / 10))" initial_request True] e f(1)
    by simp
  have b: "set tips_block
     \<inter> set (rendered (app local_file (loads (constant_model 150)) initial_request True)) = {}"
    using tips_iff [of local_file "loads (constant_model 150)" initial_request True]
    by (simp add: l constant_model_def)
  have c: "set tips_block
     \<inter> set (rendered (app local_file (loads (constant_model (2107 / 10))) electric_request True)) = {}"
    using tips_iff [of local_file "loads (constant_model (2107 / 10))" electric_request True] f(2)
    by simp
  from a b c show ?thesis by (intro conjI)
qed

text \<open>
  C6: whenever the comparison chart is on the page it has exactly four bars: the reference
  values 120, 150 and 200 labelled "Small Petrol Car", "Average Diesel Car" and "SUV", and
  the current estimate labelled "Your Vehicle"; the fourth bar has the colour of the tier
  chosen for the estimate, the one of the result card.
\<close>

theorem chart_four_bars:
  assumes "Pyplot c \<in> set (rendered (app u j r s))"
  shows "\<exists>m p ps. snd (load_model u j) = Some m \<and> m (input_data r) = Inr (p # ps) \<and>
           bars c = [(''Small Petrol Car'', 120, ''#1f77b4''),
                     (''Average Diesel Car'', 150, ''#1f77b4''),
                     (''SUV'', 200, ''#1f77b4''),
                     (''Your Vehicle'', p, emission_color p)] \<and>
           length (bars c) = 4 \<and>
           ResultCard (emission_color p)
             [Glyph (emission_icon p), Txt ('' '' @ format_1f p @ '' g/km'')]
             (emission_message p) \<in> set (rendered (app u j r s))"
proof -
  from rendered_cases [OF assms] obtain m p ps where
    s: s and l: "snd (load_model u j) = Some m" and p: "m (input_data r) = Inr (p # ps)"
    and e: "Pyplot c \<in> set (display_result (fuel_type r) p)"
    by blast
  from display_result_plot [OF e] have f: "fuel_type r \<noteq> ''Electric''"
    and c: "c = comparison_chart p" by simp_all
  have b: "bars c = [(''Small Petrol Car'', 120, ''#1f77b4''),
                     (''Average Diesel Car'', 150, ''#1f77b4''),
                     (''SUV'', 200, ''#1f77b4''),
                     (''Your Vehicle'', p, emission_color p)]"
    by (simp add: c bars_def comparison_chart_def)
  have card: "ResultCard (emission_color p)
             [Glyph (emission_icon p), Txt ('' '' @ format_1f p @ '' g/km'')]
             (emission_message p) \<in> set (rendered (app u j r s))"
    using s f by (simp add: app_submitted_predicted [OF l p] display_result_def)
  from l p b card show ?thesis by auto
qed

theorem chart_four_bars_witness:
  "Pyplot (comparison_chart (2107 / 10))
     \<in> set (rendered (app local_file (loads (constant_model (2107 / 10))) initial_request True)) \<and>
   (\<exists>p. bars (comparison_chart (2107 / 10)) =
           [(''Small Petrol Car'', 120, ''#1f77b4''),
            (''Average Diesel Car'', 150, ''#1f77b4''),
            (''SUV'', 200, ''#1f77b4''),
            (''Your Vehicle'', p, emission_color p)]) \<and>
   length (bars (comparison_chart (2107 / 10))) = 4"
proof -
  have h: "Pyplot (comparison_chart (2107 / 10))
     \<in> set (rendered (app local_file (loads (constant_model (2107 / 10))) initial_request True))"
    by (simp add: app_def load_model_def local_file_def loads_def constant_model_def
        make_prediction_def display_result_def initial_request_def fuel_options_def)
  from chart_four_bars [OF h] h show ?thesis by blast
qed

text \<open>
  C7: every request the form constructs lies in the declared domains: the model year is an
  integer from 1985 to 2025, the fuel type one of Petrol, Diesel, Hybrid and Electric, the
  kilometres an integer from 0 to 500000, the engine size one of the fifteen listed
  displacements, the transmission Manual or Automatic; and a table handed to the model is
  built from such a request, so a value outside the domains does not reach inference.
\<close>

theorem form_request_in_domain:
  assumes "prediction_form r"
  shows "1985 \<le> model_year r \<and> model_year r \<le> 2025 \<and>
         fuel_type r \<in> {''Petrol'', ''Diesel'', ''Hybrid'', ''Electric''} \<and>
         0 \<le> kms_driven r \<and> kms_driven r \<le> 500000 \<and>
         engine_cc r \<in> {1000, 1200, 1500, 1800, 2000, 2200, 2500, 2800, 3000, 3200, 3500,
                         3800, 4000, 4500, 5000} \<and>
         transmission r \<in> {''Manual'', ''Automatic''} \<and>
         set (predict_calls (app u j r s)) \<subseteq> {input_data r}"
proof -
  have "set (predict_calls (app u j r s)) \<subseteq> {input_data r}"
    by (auto simp: predict_calls_app)
  with assms show ?thesis
    unfolding prediction_form_def slider_def number_input_def selectbox_def radio_def
      fuel_options_def engine_options_def transmission_options_def
    by simp
qed

theorem form_request_in_domain_witness:
  "prediction_form initial_request \<and>
   model_year initial_request = 2018 \<and> fuel_type initial_request = ''Petrol'' \<and>
   kms_driven initial_request = 50000 \<and> engine_cc initial_request = 2000 \<and>
   transmission initial_request = ''Manual'' \<and>
   set (predict_calls (app local_file (loads (constant_model 50)) initial_request True))
     \<subseteq> {input_data initial_request}"
proof -
  have h: "prediction_form initial_request"
    by (simp add: prediction_form_def slider_def number_input_def selectbox_def radio_def
      fuel_options_def engine_options_def transmission_options_def
      initial_request_def)
  have v: "model_year initial_request = 2018 \<and> fuel_type initial_request = ''Petrol'' \<and>
   kms_driven initial_request = 50000 \<and> engine_cc initial_request = 2000 \<and>
   transmission initial_request = ''Manual''"
    by (simp add: initial_request_def fuel_options_def engine_options_def
        transmission_options_def)
  from form_request_in_domain [OF h, of local_file "loads (constant_model 50)" True] h v
  show ?thesis by simp
qed

text \<open>
  C8: the presentation of the result is a function of the fuel type and the numeric estimate
  alone: two runs that agree on these two put the same elements on the page (tier, colour,
  icon, message, chart series, tips), whatever the other fields of the request, the model
  that produced the estimate and the rest of the array it returned.
\<close>

theorem display_depends_only_on_fuel_and_estimate:
  assumes "fuel_type r1 = fuel_type r2"
    and "snd (load_model u1 j1) = Some m1" and "m1 (input_data r1) = Inr (p # ps1)"
    and "snd (load_model u2 j2) = Some m2" and "m2 (input_data r2) = Inr (p # ps2)"
  shows "rendered (app u1 j1 r1 True) = rendered (app u2 j2 r2 True) \<and>
         rendered (app u1 j1 r1 True) = page_top @ display_result (fuel_type r1) p @ page_bottom"
  using assms by (simp add: app_submitted_predicted)

theorem display_depends_only_on_fuel_and_estimate_witness:
  "rendered (app local_file (loads (constant_model (1423 / 10))) initial_request True) =
   rendered (app local_file (loads combustion_model) older_request True)"
proof -
  have f: "fuel_type initial_request = fuel_type older_request"
    by (simp add: older_request_def)
  have l1: "snd (load_model local_file (loads (constant_model (1423 / 10)))) =
      Some (constant_model (1423 / 10))"
    by (simp add: load_model_def local_file_def loads_def)
  have p1: "constant_model (1423 / 10) (input_data initial_request) = Inr [1423 / 10]"
    by (simp add: constant_model_def)
  have l2: "snd (load_model local_file (loads combustion_model)) = Some combustion_model"
    by (simp add: load_model_def local_file_def loads_def)
  have p2: "combustion_model (input_data older_request) = Inr [1423 / 10]"
    by (simp add: combustion_model_def input_data_def older_request_def initial_request_def
        fuel_options_def)
  from display_depends_only_on_fuel_and_estimate [OF f l1 p1 l2 p2] show ?thesis by simp
qed

text \<open>
  C9: for every request with fuel type Electric the page shows "0 g/km" with the fixed
  message and neither the chart nor the tips, whatever the model would return. The branch
  of lines 131 to 133 renders exactly these two elements for every prediction; in the run
  the script has with the retrieval of line 23 the page ends after the error message and
  the fixed top, and none of the two elements is on it, since line 128 has raised on the
  absent model before the branch. The fault is the absent check for \<open>None\<close>, the one of C2.
\<close>

theorem electric_output_not_rendered:
  "fuel_type electric_request = ''Electric'' \<and>
   display_result (fuel_type electric_request) p =
     [Success [Txt ''## '', Glyph PartyPopper, Txt '' 0 g/km''],
      Markdown [Txt ''Electric vehicles produce zero direct CO'', Glyph SubscriptTwo,
                Txt '' emissions!'']] \<and>
   rendered (app no_scheme j electric_request True) =
     StError (''Error loading model: unknown url type: ''
               @ quoted ''co2_emission_predictor_rf.pkl'') # page_top \<and>
   set (display_result (fuel_type electric_request) p)
     \<inter> set (rendered (app no_scheme j electric_request True)) = {}"
proof -
  have d: "set (display_result ''Electric'' p)
     \<inter> set (rendered (app no_scheme j electric_request True)) = {}"
    by (auto simp: app_no_scheme_submitted display_result_electric dest: page_top_static)
  then show ?thesis
    by (simp add: fuel_type_electric_request app_no_scheme_submitted display_result_electric)
qed

text \<open>
  C10: on every submission the table handed to the model has one row and exactly the five
  columns \<open>Model_Year\<close>, \<open>Fuel_Type\<close>, \<open>KMs_Driven\<close>, \<open>Engine_CC\<close> and \<open>Transmission_Type\<close>, in
  this order, each holding the value of its form control; the model is called with this
  table once when the form was submitted and a model is loaded, and not at all otherwise.
\<close>

theorem feature_table_shape:
  "predict_calls (app u j r s) =
     (if s \<and> snd (load_model u j) \<noteq> None then [input_data r] else []) \<and>
   map fst (input_data r) =
     [''Model_Year'', ''Fuel_Type'', ''KMs_Driven'', ''Engine_CC'', ''Transmission_Type''] \<and>
   map snd (input_data r) =
     [[IntCell (model_year r)], [StrCell (fuel_type r)], [IntCell (kms_driven r)],
      [IntCell (engine_cc r)], [StrCell (transmission r)]]"
  by (simp add: predict_calls_app input_data_def)

theorem feature_table_shape_witness:
  "predict_calls (app local_file (loads (constant_model 50)) initial_request True) =
     [[(''Model_Year'', [IntCell 2018]), (''Fuel_Type'', [StrCell ''Petrol'']),
       (''KMs_Driven'', [IntCell 50000]), (''Engine_CC'', [IntCell 2000]),
       (''Transmission_Type'', [StrCell ''Manual''])]]"
  using feature_table_shape [of local_file "loads (constant_model 50)" initial_request True]
  by (simp add: load_model_def local_file_def loads_def input_data_def initial_request_def
      fuel_options_def engine_options_def transmission_options_def)

end
